theory Spec2Isabelle
  imports Main
begin

section \<open>Python values, exceptions and output\<close>

text \<open>
  The tool (\<^verbatim>\<open>network_tool.py\<close>) decodes HTTP bodies with \<^verbatim>\<open>response.json()\<close> and
  walks the result with \<^verbatim>\<open>d.get(k, default)\<close>, \<^verbatim>\<open>d[k]\<close>, \<^verbatim>\<open>len\<close>, \<^verbatim>\<open>for\<close> and
  \<^verbatim>\<open>str\<close>. A decoded body is a \<open>json\<close> value. An object carries its items in insertion
  order, with distinct keys, as a Python dict does. Numbers are integers; floating point
  numbers are left out.

  A Python \<^verbatim>\<open>str\<close> is a \<open>string\<close>, each \<open>char\<close> standing for the code point of the same
  number (U+0000 to U+00FF).
\<close>

datatype json =
    JNull
  | JBool bool
  | JInt int
  | JStr string
  | JList "json list"
  | JObj "(string \<times> json) list"

text \<open>
  The exceptions that the code can meet. \<open>KeyError\<close> carries the missing key,
  \<open>RequestException\<close> the text of \<^verbatim>\<open>str(e)\<close>.
\<close>

datatype exn =
    KeyError string
  | TypeError
  | AttributeError
  | IndexError
  | ValueError
  | NotRenderableError
  | RequestException string

definition and_then :: "exn + 'a \<Rightarrow> ('a \<Rightarrow> exn + 'b) \<Rightarrow> exn + 'b" where
  "and_then m f = (case m of Inl e \<Rightarrow> Inl e | Inr x \<Rightarrow> f x)"

text \<open>\<^verbatim>\<open>d.get(k, default)\<close>: only a dict has the method.\<close>

fun dict_get :: "json \<Rightarrow> string \<Rightarrow> json \<Rightarrow> exn + json" where
  "dict_get (JObj kvs) k d = Inr (case map_of kvs k of None \<Rightarrow> d | Some v \<Rightarrow> v)"
| "dict_get _ k d = Inl AttributeError"

text \<open>\<^verbatim>\<open>d[k]\<close> with a string key: a missing key raises, and so does any value that is
  not a dict (a list or a string wants an integer index, the others have no items).\<close>

fun subscript :: "json \<Rightarrow> string \<Rightarrow> exn + json" where
  "subscript (JObj kvs) k = (case map_of kvs k of None \<Rightarrow> Inl (KeyError k) | Some v \<Rightarrow> Inr v)"
| "subscript _ k = Inl TypeError"

text \<open>\<^verbatim>\<open>xs[0]\<close> on a list.\<close>

fun subscript0 :: "'a list \<Rightarrow> exn + 'a" where
  "subscript0 [] = Inl IndexError"
| "subscript0 (x # xs) = Inr x"

fun py_len :: "json \<Rightarrow> exn + nat" where
  "py_len (JList xs) = Inr (length xs)"
| "py_len (JObj kvs) = Inr (length kvs)"
| "py_len (JStr s) = Inr (length s)"
| "py_len _ = Inl TypeError"

text \<open>The items a \<^verbatim>\<open>for\<close> loop visits: the elements of a list, the keys of a dict, the
  characters of a string.\<close>

fun py_iter :: "json \<Rightarrow> exn + json list" where
  "py_iter (JList xs) = Inr xs"
| "py_iter (JObj kvs) = Inr (map (\<lambda>kv. JStr (fst kv)) kvs)"
| "py_iter (JStr s) = Inr (map (\<lambda>c. JStr [c]) s)"
| "py_iter _ = Inl TypeError"

fun truthy :: "json \<Rightarrow> bool" where
  "truthy JNull = False"
| "truthy (JBool b) = b"
| "truthy (JInt i) = (i \<noteq> 0)"
| "truthy (JStr s) = (s \<noteq> [])"
| "truthy (JList xs) = (xs \<noteq> [])"
| "truthy (JObj kvs) = (kvs \<noteq> [])"

subsection \<open>Decimal text of integers\<close>

definition digit_char :: "nat \<Rightarrow> char" where
  "digit_char d = ''0123456789'' ! d"

function str_nat :: "nat \<Rightarrow> string" where
  "str_nat n = (if n < 10 then [digit_char n] else str_nat (n div 10) @ [digit_char (n mod 10)])"
  by pat_completeness auto
termination
  by (relation "measure (\<lambda>n. n)") auto

declare str_nat.simps [simp del]

definition str_int :: "int \<Rightarrow> string" where
  "str_int i = (if i < 0 then CHR ''-'' # str_nat (nat (- i)) else str_nat (nat i))"

subsection \<open>\<^verbatim>\<open>str.isdigit\<close> and \<^verbatim>\<open>int\<close>\<close>

definition is_decimal :: "char \<Rightarrow> bool" where
  "is_decimal c = (c \<in> set ''0123456789'')"

text \<open>Between U+0000 and U+00FF the characters that \<^verbatim>\<open>isdigit\<close> accepts are the ten
  decimal digits and the superscripts two, three and one (U+00B2, U+00B3, U+00B9).\<close>

definition is_digit_char :: "char \<Rightarrow> bool" where
  "is_digit_char c = (is_decimal c \<or> c = CHR 0xB2 \<or> c = CHR 0xB3 \<or> c = CHR 0xB9)"

text \<open>\<^verbatim>\<open>s.isdigit()\<close>: at least one character, and every character a digit.\<close>

definition isdigit :: "string \<Rightarrow> bool" where
  "isdigit s = (s \<noteq> [] \<and> list_all is_digit_char s)"

definition digit_val :: "char \<Rightarrow> int" where
  "digit_val c = of_char c - 48"

text \<open>\<^verbatim>\<open>int(s)\<close> on a string that \<^verbatim>\<open>isdigit\<close> accepted. A superscript digit is no decimal
  and raises \<^verbatim>\<open>ValueError\<close> (\<open>None\<close>). A decimal numeral converts when it is not too long:
  CPython (3.11 and later) refuses a numeral of more than \<^verbatim>\<open>sys.get_int_max_str_digits()\<close>
  digits, leading zeros counted, and raises \<^verbatim>\<open>ValueError\<close>; the limit is 4300 unless the
  interpreter is configured otherwise. The forms of \<^verbatim>\<open>int\<close> with a sign, blanks or
  underscores cannot come here.\<close>

definition int_max_str_digits :: nat where
  "int_max_str_digits = 4300"

definition py_int :: "string \<Rightarrow> int option" where
  "py_int s = (if s \<noteq> [] \<and> list_all is_decimal s \<and> length s \<le> int_max_str_digits
               then Some (foldl (\<lambda>a c. 10 * a + digit_val c) 0 s) else None)"

subsection \<open>Console output and tables\<close>

text \<open>A table cell is text. \<^verbatim>\<open>str(v)\<close> of a list or a dict is Python's \<^verbatim>\<open>repr\<close> of it,
  kept as \<open>Repr v\<close> and not spelled out.\<close>

datatype cell = Txt string | Repr json

fun py_str :: "json \<Rightarrow> cell" where
  "py_str JNull = Txt ''None''"
| "py_str (JBool b) = Txt (if b then ''True'' else ''False'')"
| "py_str (JInt i) = Txt (str_int i)"
| "py_str (JStr s) = Txt s"
| "py_str v = Repr v"

text \<open>\<^verbatim>\<open>Table.add_row\<close> of the rich library takes a string as it is, stores \<^verbatim>\<open>None\<close> as
  the empty string, and raises \<^verbatim>\<open>NotRenderableError\<close> on any other decoded value.\<close>

fun renderable :: "json \<Rightarrow> exn + cell" where
  "renderable (JStr s) = Inr (Txt s)"
| "renderable JNull = Inr (Txt [])"
| "renderable _ = Inl NotRenderableError"

text \<open>The check mark U+2713 of the status column lies beyond U+00FF; it is written as
  its three UTF-8 bytes.\<close>

definition tick :: string where
  "tick = [CHR 0xE2, CHR 0x9C, CHR 0x93]"

record table =
  title :: string
  columns :: "(string \<times> string) list"
  rows :: "cell list list"

text \<open>What a run does, in order: \<^verbatim>\<open>print\<close>, \<^verbatim>\<open>console.print\<close> of a string or of a
  table, an HTTP GET of a URL, a DNS query (nameservers in use, name, record type).\<close>

datatype event =
    Print string
  | ConsolePrint string
  | ConsoleTable table
  | HttpGet string
  | DnsQuery "string list" string string

text \<open>A run ends with the events it produced and the exception that escaped it, if any.\<close>

type_synonym outcome = "event list \<times> exn option"

fun is_network_call :: "event \<Rightarrow> bool" where
  "is_network_call (HttpGet u) = True"
| "is_network_call (DnsQuery ns f t) = True"
| "is_network_call _ = False"

definition network_calls :: "event list \<Rightarrow> event list" where
  "network_calls tr = filter is_network_call tr"

subsection \<open>The libraries and services around the tool\<close>

text \<open>
  \<^verbatim>\<open>requests.get\<close> fails with a \<^verbatim>\<open>RequestException\<close> (\<open>Failure\<close>, with its text) or
  returns a response: the status code and the body, which \<^verbatim>\<open>response.json()\<close> decodes
  (\<open>Inr\<close>) or rejects with a \<^verbatim>\<open>JSONDecodeError\<close>, itself a \<^verbatim>\<open>RequestException\<close> (\<open>Inl\<close>,
  with its text).
\<close>

datatype http_result = Failure string | Response int "string + json"

text \<open>
  The parts of a run that the source does not decide:
  \<^item> \<open>ip_network\<close>: \<^verbatim>\<open>ipaddress.ip_network(s)\<close>, the text of the network, or \<open>None\<close>
    where it raises \<^verbatim>\<open>ValueError\<close>;
  \<^item> \<open>http_get\<close>: the answer to a GET of a URL;
  \<^item> \<open>system_resolver\<close>: \<^verbatim>\<open>resolver.Resolver()\<close>, the nameservers it read from the
    system (\<open>Inr\<close>), or the text of the exception it raised (\<open>Inl\<close>);
  \<^item> \<open>accept_nameservers\<close>: assigning \<^verbatim>\<open>nameservers\<close> of a fresh resolver, \<open>Some\<close> text
    where the assignment raises;
  \<^item> \<open>dns_resolve\<close>: \<^verbatim>\<open>resolver.resolve(name, rdtype)\<close> under the nameservers in use:
    the text of each record (\<open>Inr\<close>), or the text of the exception (\<open>Inl\<close>).
\<close>

record world =
  ip_network :: "string \<Rightarrow> string option"
  http_get :: "string \<Rightarrow> http_result"
  system_resolver :: "string + string list"
  accept_nameservers :: "string list \<Rightarrow> string option"
  dns_resolve :: "string list \<Rightarrow> string \<Rightarrow> string \<Rightarrow> string + string list"

section \<open>The routing-data lookup: \<^verbatim>\<open>bgp\<close>\<close>

definition BGPVIEW :: string where
  "BGPVIEW = ''https://api.bgpview.io''"

text \<open>The line that both \<^verbatim>\<open>except RequestException\<close> handlers and the handler of
  \<^verbatim>\<open>fqdn\<close> print.\<close>

definition error_line :: "string \<Rightarrow> event" where
  "error_line msg = ConsolePrint (''[bold red]Error:[/bold red] '' @ msg)"

subsection \<open>The ASN path\<close>

text \<open>One \<^verbatim>\<open>table.add_row\<close> of the loop over the prefixes: the three items are read
  first, then \<^verbatim>\<open>add_row\<close> looks at its arguments in order.\<close>

definition asn_prefix_row :: "json \<Rightarrow> exn + cell list" where
  "asn_prefix_row prefix =
     and_then (subscript prefix ''name'') (\<lambda>name.
     and_then (subscript prefix ''prefix'') (\<lambda>pfx.
     and_then (subscript prefix ''cidr'') (\<lambda>cidr.
     and_then (renderable name) (\<lambda>c1.
     and_then (renderable pfx) (\<lambda>c2.
     Inr [c1, c2, py_str cidr, Txt tick])))))"

fun asn_prefix_rows :: "json list \<Rightarrow> exn + cell list list" where
  "asn_prefix_rows [] = Inr []"
| "asn_prefix_rows (prefix # prefixes) =
     and_then (asn_prefix_row prefix) (\<lambda>r.
     and_then (asn_prefix_rows prefixes) (\<lambda>rs. Inr (r # rs)))"

definition asn_columns :: "(string \<times> string) list" where
  "asn_columns = [(''Name'', ''cyan''), (''Prefix'', ''green''), (''CIDR'', ''magenta''),
                  (''Status'', ''yellow'')]"

text \<open>From the decoded body to the table that is printed.\<close>

definition asn_table :: "int \<Rightarrow> json \<Rightarrow> exn + table" where
  "asn_table asn data =
     and_then (dict_get data ''data'' (JObj [])) (\<lambda>asn_info.
     and_then (dict_get asn_info ''ipv4_prefixes'' (JList [])) (\<lambda>prefixes.
     and_then (py_iter prefixes) (\<lambda>ps.
     and_then (asn_prefix_rows ps) (\<lambda>rs.
     Inr \<lparr>title = ''ASN '' @ str_int asn @ '' Information'',
          columns = asn_columns, rows = rs\<rparr>))))"

definition asn_url :: "int \<Rightarrow> string" where
  "asn_url asn = BGPVIEW @ ''/asn/'' @ str_int asn @ ''/prefixes''"

text \<open>The body of the inner \<^verbatim>\<open>try\<close> of the ASN path.\<close>

definition asn_lookup :: "world \<Rightarrow> int \<Rightarrow> outcome" where
  "asn_lookup w asn =
     (case http_get w (asn_url asn) of
        Failure msg \<Rightarrow> ([HttpGet (asn_url asn)], Some (RequestException msg))
      | Response status_code body \<Rightarrow>
          if status_code = 200 then
            (case body of
               Inl msg \<Rightarrow> ([HttpGet (asn_url asn)], Some (RequestException msg))
             | Inr data \<Rightarrow>
                 (case asn_table asn data of
                    Inl e \<Rightarrow> ([HttpGet (asn_url asn)], Some e)
                  | Inr t \<Rightarrow> ([HttpGet (asn_url asn), ConsoleTable t], None)))
          else ([HttpGet (asn_url asn)], None))"

subsection \<open>The prefix path\<close>

text \<open>The one row of the prefix table. The description is
  \<^verbatim>\<open>prefix_info['description_short'] if prefix_info['description_short'] else "UNKNOWN"\<close>.\<close>

definition prefix_summary_row :: "json \<Rightarrow> exn + cell list" where
  "prefix_summary_row prefix_info =
     and_then (subscript prefix_info ''name'') (\<lambda>name.
     and_then (subscript prefix_info ''prefix'') (\<lambda>pfx.
     and_then (subscript prefix_info ''ip'') (\<lambda>ip.
     and_then (subscript prefix_info ''description_short'') (\<lambda>description_short.
     and_then (subscript prefix_info ''asns'') (\<lambda>asns.
     and_then (py_len asns) (\<lambda>n.
     and_then (renderable name) (\<lambda>c1.
     and_then (renderable pfx) (\<lambda>c2.
     and_then (renderable ip) (\<lambda>c3.
     and_then (if truthy description_short then renderable description_short
               else Inr (Txt ''UNKNOWN'')) (\<lambda>c4.
     Inr [c1, c2, c3, c4, Txt (str_nat n), Txt tick]))))))))))"

text \<open>One \<^verbatim>\<open>asn_table.add_row\<close> of the nested loops.\<close>

definition asn_detail_row :: "json \<Rightarrow> json \<Rightarrow> exn + cell list" where
  "asn_detail_row asn upstream_asn =
     and_then (subscript asn ''asn'') (\<lambda>a.
     and_then (subscript asn ''name'') (\<lambda>name.
     and_then (subscript asn ''description'') (\<lambda>description.
     and_then (subscript asn ''country_code'') (\<lambda>country_code.
     and_then (subscript upstream_asn ''asn'') (\<lambda>ua.
     and_then (subscript upstream_asn ''name'') (\<lambda>uname.
     and_then (renderable name) (\<lambda>c2.
     and_then (renderable description) (\<lambda>c3.
     and_then (renderable country_code) (\<lambda>c4.
     and_then (renderable uname) (\<lambda>c6.
     Inr [py_str a, c2, c3, c4, py_str ua, c6]))))))))))"

text \<open>The inner loop, over the upstreams of one ASN.\<close>

fun upstream_rows :: "json \<Rightarrow> json list \<Rightarrow> exn + cell list list" where
  "upstream_rows asn [] = Inr []"
| "upstream_rows asn (upstream_asn # upstreams) =
     and_then (asn_detail_row asn upstream_asn) (\<lambda>r.
     and_then (upstream_rows asn upstreams) (\<lambda>rs. Inr (r # rs)))"

text \<open>The outer loop, over the ASNs of the prefix.\<close>

fun asn_rows :: "json list \<Rightarrow> exn + cell list list" where
  "asn_rows [] = Inr []"
| "asn_rows (asn # asns) =
     and_then (subscript asn ''prefix_upstreams'') (\<lambda>prefix_upstreams.
     and_then (py_iter prefix_upstreams) (\<lambda>upstreams.
     and_then (upstream_rows asn upstreams) (\<lambda>rs.
     and_then (asn_rows asns) (\<lambda>rest. Inr (rs @ rest)))))"

definition prefix_columns :: "(string \<times> string) list" where
  "prefix_columns = [(''Name'', ''cyan''), (''Prefix'', ''green''), (''IP'', ''blue''),
                     (''Description'', ''magenta''), (''ASN Count'', ''blue_violet''),
                     (''Status'', ''yellow'')]"

definition asn_detail_columns :: "(string \<times> string) list" where
  "asn_detail_columns = [(''ASN'', ''cyan''), (''Name'', ''green''), (''Description'', ''magenta''),
                         (''Country Code'', ''yellow''), (''Upstream ASNs'', ''blue''),
                         (''Upstream ASN Names'', ''cyan'')]"

text \<open>From the decoded body to the two tables that are printed, the prefix table first.\<close>

definition prefix_tables :: "string \<Rightarrow> json \<Rightarrow> exn + table \<times> table" where
  "prefix_tables prefix data =
     and_then (dict_get data ''data'' (JObj [])) (\<lambda>prefix_info.
     and_then (dict_get prefix_info ''ipv4_prefixes'' (JList [])) (\<lambda>prefixes.
     and_then (prefix_summary_row prefix_info) (\<lambda>summary.
     and_then (subscript prefix_info ''asns'') (\<lambda>asns.
     and_then (py_len asns) (\<lambda>asn_count.
     and_then (py_iter asns) (\<lambda>owners.
     and_then (asn_rows owners) (\<lambda>rs.
     Inr (\<lparr>title = ''Prefix '' @ prefix @ '' Information'',
           columns = prefix_columns, rows = [summary]\<rparr>,
          \<lparr>title = ''ASN Information for '' @ prefix,
           columns = asn_detail_columns, rows = rs\<rparr>))))))))"

definition prefix_url :: "string \<Rightarrow> string" where
  "prefix_url prefix = BGPVIEW @ ''/prefix/'' @ prefix"

text \<open>The body of the inner \<^verbatim>\<open>try\<close> of the prefix path.\<close>

definition prefix_lookup :: "world \<Rightarrow> string \<Rightarrow> outcome" where
  "prefix_lookup w prefix =
     (case http_get w (prefix_url prefix) of
        Failure msg \<Rightarrow> ([HttpGet (prefix_url prefix)], Some (RequestException msg))
      | Response status_code body \<Rightarrow>
          if status_code = 200 then
            (case body of
               Inl msg \<Rightarrow> ([HttpGet (prefix_url prefix)], Some (RequestException msg))
             | Inr data \<Rightarrow>
                 (case prefix_tables prefix data of
                    Inl e \<Rightarrow> ([HttpGet (prefix_url prefix)], Some e)
                  | Inr (prefix_table, upstream_table) \<Rightarrow>
                      ([HttpGet (prefix_url prefix), ConsoleTable prefix_table,
                        ConsoleTable upstream_table], None)))
          else ([HttpGet (prefix_url prefix)], None))"

subsection \<open>Classification and the handlers\<close>

definition get_ip_or_none :: "world \<Rightarrow> string \<Rightarrow> string option" where
  "get_ip_or_none w ip_str = (case ip_network w ip_str of Some n \<Rightarrow> Some n | None \<Rightarrow> None)"

fun except_RequestException :: "outcome \<Rightarrow> outcome" where
  "except_RequestException (tr, Some (RequestException msg)) = (tr @ [error_line msg], None)"
| "except_RequestException r = r"

definition invalid_value_lines :: "string \<Rightarrow> event list" where
  "invalid_value_lines tok =
     [Print (''The value passed to --bgp is invalid: '' @ tok @ ''.''),
      Print ''Make sure the value passed is a valid ASN number of a valid IP Address/Subnet'']"

fun except_ValueError :: "string \<Rightarrow> outcome \<Rightarrow> outcome" where
  "except_ValueError tok (tr, Some ValueError) = (tr @ invalid_value_lines tok, None)"
| "except_ValueError tok r = r"

text \<open>The line of the last \<^verbatim>\<open>else\<close>, an f-string over the variable \<^verbatim>\<open>asn\<close>.\<close>

definition unable_line :: "int option \<Rightarrow> event" where
  "unable_line asn =
     Print (''Error: Unable to retrieve BGP information for ASN ''
            @ (case asn of None \<Rightarrow> ''None'' | Some n \<Rightarrow> str_int n) @ ''.'')"

definition after :: "event list \<Rightarrow> outcome \<Rightarrow> outcome" where
  "after tr r = (tr @ fst r, snd r)"

definition bgp :: "world \<Rightarrow> string \<Rightarrow> outcome" where
  "bgp w tok =
     except_ValueError tok
       (if isdigit tok then
          (case py_int tok of
             None \<Rightarrow> ([], Some ValueError)
           | Some asn \<Rightarrow>
               after [ConsolePrint (''[bold]BGP ASN:[/bold] '' @ str_int asn)]
                 (except_RequestException (asn_lookup w asn)))
        else if get_ip_or_none w tok \<noteq> None then
          (case ip_network w tok of
             None \<Rightarrow> ([], Some ValueError)
           | Some prefix \<Rightarrow> except_RequestException (prefix_lookup w prefix))
        else ([unable_line None], None))"

section \<open>The DNS lookup: \<^verbatim>\<open>fqdn\<close>\<close>

definition rdtypes :: "string list" where
  "rdtypes = [''A'', ''AAAA'', ''CNAME'', ''MX'', ''NS'', ''SOA'', ''PTR'', ''SRV'', ''TXT'', ''CAA'',
              ''DS'', ''DNSKEY'', ''RRSIG'', ''NSEC'', ''NSEC3'', ''NSEC3PARAM'']"

text \<open>\<^verbatim>\<open>sub in s\<close> on strings.\<close>

fun starts_with :: "string \<Rightarrow> string \<Rightarrow> bool" where
  "starts_with [] s = True"
| "starts_with (c # cs) [] = False"
| "starts_with (c # cs) (d # ds) = (c = d \<and> starts_with cs ds)"

fun py_in :: "string \<Rightarrow> string \<Rightarrow> bool" where
  "py_in sub [] = (sub = [])"
| "py_in sub (c # cs) = (starts_with sub (c # cs) \<or> py_in sub cs)"

text \<open>One pass of the loop over the record types: the rows it adds to the table.\<close>

definition record_rows :: "world \<Rightarrow> string list \<Rightarrow> string \<Rightarrow> string \<Rightarrow> cell list list" where
  "record_rows w ns f rdtype =
     (case dns_resolve w ns f rdtype of
        Inr answers \<Rightarrow> map (\<lambda>rdata. [Txt rdtype, Txt rdata, Txt tick]) answers
      | Inl error_msg \<Rightarrow>
          if \<not> py_in ''NXDOMAIN'' error_msg \<and> \<not> py_in ''NODATA'' error_msg
          then [[Txt rdtype, Txt [], Txt (''Error: '' @ error_msg)]]
          else [])"

text \<open>The loop: the queries it sends and the rows it collects.\<close>

fun collect_records ::
  "world \<Rightarrow> string list \<Rightarrow> string \<Rightarrow> string list \<Rightarrow> event list \<times> cell list list" where
  "collect_records w ns f [] = ([], [])"
| "collect_records w ns f (rdtype # rest) =
     (DnsQuery ns f rdtype # fst (collect_records w ns f rest),
      record_rows w ns f rdtype @ snd (collect_records w ns f rest))"

definition dns_columns :: "(string \<times> string) list" where
  "dns_columns = [(''Record Type'', ''cyan''), (''Data'', ''green''), (''Status'', ''yellow'')]"

text \<open>From the creation of the table to its display; \<open>shown\<close> is the nameserver of the
  title.\<close>

definition dns_table :: "world \<Rightarrow> string list \<Rightarrow> string \<Rightarrow> string \<Rightarrow> event list" where
  "dns_table w ns f shown =
     fst (collect_records w ns f rdtypes)
     @ [ConsoleTable \<lparr>title = ''DNS Records for '' @ f @ '' using nameserver: '' @ shown,
                      columns = dns_columns,
                      rows = snd (collect_records w ns f rdtypes)\<rparr>]"

definition dns_header :: "string \<Rightarrow> string \<Rightarrow> event" where
  "dns_header f shown =
     ConsolePrint (''[bold]FQDN:[/bold] '' @ f @ '', [bold]Nameserver:[/bold] '' @ shown)"

text \<open>The test \<^verbatim>\<open>if s:\<close> on a value that is a string or \<^verbatim>\<open>None\<close>: the string when
  it holds, which is when the string is there and not empty.\<close>

fun if_given :: "string option \<Rightarrow> string option" where
  "if_given None = None"
| "if_given (Some []) = None"
| "if_given (Some (c # cs)) = Some (c # cs)"

text \<open>Every exception inside \<^verbatim>\<open>fqdn\<close> is caught, printed as an error line, and the
  function returns. The title of the table reads \<^verbatim>\<open>system_nameservers[0]\<close> with no
  test; the text of its \<^verbatim>\<open>IndexError\<close> is \<^verbatim>\<open>list index out of range\<close>.\<close>

definition fqdn :: "world \<Rightarrow> string \<Rightarrow> string option \<Rightarrow> outcome" where
  "fqdn w f nameserver =
     (case if_given nameserver of
        Some n \<Rightarrow>
          (case accept_nameservers w [n] of
             Some msg \<Rightarrow> ([dns_header f n, error_line msg], None)
           | None \<Rightarrow> (dns_header f n # dns_table w [n] f n, None))
      | None \<Rightarrow>
          (case system_resolver w of
             Inl msg \<Rightarrow> ([error_line msg], None)
           | Inr system_nameservers \<Rightarrow>
               (case subscript0 system_nameservers of
                  Inl e \<Rightarrow>
                    ([dns_header f (if system_nameservers \<noteq> [] then hd system_nameservers
                                    else ''unknown''),
                      error_line ''list index out of range''], None)
                | Inr shown \<Rightarrow>
                    (dns_header f (if system_nameservers \<noteq> [] then hd system_nameservers
                                   else ''unknown'')
                     # dns_table w system_nameservers f shown, None))))"

section \<open>The dispatcher: \<^verbatim>\<open>main\<close>\<close>

text \<open>The parsed arguments. A flag declared with \<^verbatim>\<open>nargs=1\<close> holds a list when it is
  given, \<^verbatim>\<open>--bgp\<close> a string; a flag that is not given holds \<^verbatim>\<open>None\<close>.\<close>

record namespace =
  arg_fqdn :: "string list option"
  arg_nameserver :: "string list option"
  arg_subnet :: "string list option"
  arg_target_host :: "string list option"
  arg_bgp :: "string option"

text \<open>The test \<^verbatim>\<open>if xs:\<close> on a value that is a list or \<^verbatim>\<open>None\<close>.\<close>

fun items_if_given :: "'a list option \<Rightarrow> 'a list option" where
  "items_if_given None = None"
| "items_if_given (Some []) = None"
| "items_if_given (Some (x # xs)) = Some (x # xs)"

definition no_arguments_line :: event where
  "no_arguments_line = Print ''No arguments provided. Use --help for more information.''"

definition main :: "world \<Rightarrow> namespace \<Rightarrow> outcome" where
  "main w args =
     (if arg_fqdn args = None \<and> arg_nameserver args = None \<and> arg_subnet args = None
         \<and> arg_target_host args = None \<and> arg_bgp args = None
      then ([no_arguments_line], None)
      else
        (case items_if_given (arg_fqdn args) of
           Some fs \<Rightarrow>
             (case arg_nameserver args of
                Some ns \<Rightarrow>
                  (case and_then (subscript0 fs) (\<lambda>f.
                        and_then (subscript0 ns) (\<lambda>n. Inr (f, n))) of
                     Inl e \<Rightarrow> ([], Some e)
                   | Inr (f, n) \<Rightarrow> fqdn w f (Some n))
              | None \<Rightarrow>
                  (case subscript0 fs of
                     Inl e \<Rightarrow> ([], Some e)
                   | Inr f \<Rightarrow> fqdn w f None))
         | None \<Rightarrow>
             (case if_given (arg_bgp args) of
                Some tok \<Rightarrow> bgp w tok
              | None \<Rightarrow> ([], None))))"

section \<open>Notions used to state the properties\<close>

subsection \<open>Reading a decoded body\<close>

text \<open>The item under a key, \<open>JNull\<close> where there is none.\<close>

fun field :: "json \<Rightarrow> string \<Rightarrow> json" where
  "field (JObj kvs) k = (case map_of kvs k of None \<Rightarrow> JNull | Some v \<Rightarrow> v)"
| "field _ k = JNull"

fun has_key :: "json \<Rightarrow> string \<Rightarrow> bool" where
  "has_key (JObj kvs) k = (map_of kvs k \<noteq> None)"
| "has_key _ k = False"

text \<open>A value that a table shows: a string, or \<^verbatim>\<open>null\<close>, text_cell as the empty string.\<close>

fun is_text :: "json \<Rightarrow> bool" where
  "is_text (JStr s) = True"
| "is_text JNull = True"
| "is_text _ = False"

fun text_cell :: "json \<Rightarrow> cell" where
  "text_cell (JStr s) = Txt s"
| "text_cell _ = Txt []"

fun is_list :: "json \<Rightarrow> bool" where
  "is_list (JList xs) = True"
| "is_list _ = False"

fun elements :: "json \<Rightarrow> json list" where
  "elements (JList xs) = xs"
| "elements _ = []"

fun is_dict :: "json \<Rightarrow> bool" where
  "is_dict (JObj kvs) = True"
| "is_dict _ = False"

definition has_text :: "json \<Rightarrow> string \<Rightarrow> bool" where
  "has_text v k = (has_key v k \<and> is_text (field v k))"

definition has_list :: "json \<Rightarrow> string \<Rightarrow> bool" where
  "has_list v k = (has_key v k \<and> is_list (field v k))"

subsection \<open>The rows of the data model\<close>

text \<open>An entry of \<^verbatim>\<open>ipv4_prefixes\<close> as the API documents it, \<^verbatim>\<open>{name, prefix, cidr}\<close>, and
  the row that stands for it: name, prefix, CIDR length, the fixed success mark.\<close>

definition prefix_entry :: "json \<Rightarrow> bool" where
  "prefix_entry p = (has_text p ''name'' \<and> has_text p ''prefix'' \<and> has_key p ''cidr'')"

definition AsnPrefixRow :: "json \<Rightarrow> cell list" where
  "AsnPrefixRow p =
     [text_cell (field p ''name''), text_cell (field p ''prefix''), py_str (field p ''cidr''), Txt tick]"

text \<open>An entry of \<^verbatim>\<open>prefix_upstreams\<close>, \<^verbatim>\<open>{asn, name}\<close>, and an entry of \<^verbatim>\<open>asns\<close>,
  \<^verbatim>\<open>{asn, name, description, country_code, prefix_upstreams}\<close>.\<close>

definition upstream_entry :: "json \<Rightarrow> bool" where
  "upstream_entry u = (has_key u ''asn'' \<and> has_text u ''name'')"

definition upstreams_of :: "json \<Rightarrow> json list" where
  "upstreams_of a = elements (field a ''prefix_upstreams'')"

definition owner_entry :: "json \<Rightarrow> bool" where
  "owner_entry a = (has_key a ''asn'' \<and> has_text a ''name'' \<and> has_text a ''description''
     \<and> has_text a ''country_code'' \<and> has_list a ''prefix_upstreams''
     \<and> list_all upstream_entry (upstreams_of a))"

text \<open>The row of one (owning ASN, upstream ASN) pair.\<close>

definition AsnDetailRow :: "json \<Rightarrow> json \<Rightarrow> cell list" where
  "AsnDetailRow a u =
     [py_str (field a ''asn''), text_cell (field a ''name''), text_cell (field a ''description''),
      text_cell (field a ''country_code''), py_str (field u ''asn''), text_cell (field u ''name'')]"

text \<open>A prefix object as the API documents it,
  \<^verbatim>\<open>{name, prefix, ip, description_short, asns}\<close>; a description that counts as true is a
  string. Its row: name, prefix, IP, description or \<^verbatim>\<open>UNKNOWN\<close>, number of owning ASNs,
  the success mark.\<close>

definition prefix_info_entry :: "json \<Rightarrow> bool" where
  "prefix_info_entry info =
     (has_text info ''name'' \<and> has_text info ''prefix'' \<and> has_text info ''ip''
      \<and> has_key info ''description_short''
      \<and> (if truthy (field info ''description_short'') then is_text (field info ''description_short'')
          else True)
      \<and> has_list info ''asns''
      \<and> list_all owner_entry (elements (field info ''asns'')))"

definition PrefixSummaryRow :: "json \<Rightarrow> cell list" where
  "PrefixSummaryRow info =
     [text_cell (field info ''name''), text_cell (field info ''prefix''),
      text_cell (field info ''ip''),
      (if truthy (field info ''description_short'') then text_cell (field info ''description_short'')
       else Txt ''UNKNOWN''),
      Txt (str_nat (length (elements (field info ''asns'')))), Txt tick]"

fun is_http_get :: "event \<Rightarrow> bool" where
  "is_http_get (HttpGet u) = True"
| "is_http_get _ = False"

subsection \<open>Sample environments and inputs\<close>

text \<open>A parser that knows one network, and an API that cannot be reached.\<close>

definition only_network :: "string \<Rightarrow> string \<Rightarrow> string option" where
  "only_network n s = (if s = n then Some n else None)"

definition unreachable :: "string \<Rightarrow> http_result" where
  "unreachable u = Failure ''connection refused''"

definition sample_world ::
  "(string \<Rightarrow> string option) \<Rightarrow> (string \<Rightarrow> http_result) \<Rightarrow> string list \<Rightarrow> world" where
  "sample_world parse get ns =
     \<lparr>ip_network = parse, http_get = get, system_resolver = Inr ns,
      accept_nameservers = (\<lambda>ns. None), dns_resolve = (\<lambda>ns f t. Inl ''NODATA'')\<rparr>"

text \<open>An API that answers every request with status 200 and \<^verbatim>\<open>{"data": {}}\<close>.\<close>

definition empty_data :: "string \<Rightarrow> http_result" where
  "empty_data u = Response 200 (Inr (JObj [(''data'', JObj [])]))"

text \<open>The text of \<^verbatim>\<open>str(e)\<close> when the dnspython library reports that a name does not
  exist (\<^verbatim>\<open>dns.resolver.NXDOMAIN\<close>, one query name): the sentence of the exception class,
  then the absolute name. A resolver for a domain that does not exist raises it for every
  record type.\<close>

definition nxdomain_text :: "string \<Rightarrow> string" where
  "nxdomain_text f = ''The DNS query name does not exist: '' @ f @ ''.''"

definition nxdomain_dns :: "string list \<Rightarrow> string \<Rightarrow> string \<Rightarrow> string + string list" where
  "nxdomain_dns ns f rdtype = Inl (nxdomain_text f)"

definition nxdomain_world :: world where
  "nxdomain_world = \<lparr>ip_network = (\<lambda>s. None), http_get = unreachable,
     system_resolver = Inr [''192.0.2.53''], accept_nameservers = (\<lambda>ns. None),
     dns_resolve = nxdomain_dns\<rparr>"

text \<open>The row that the table shows for a record type of \<^verbatim>\<open>nosuch.example\<close>.\<close>

definition nxdomain_row :: "string \<Rightarrow> cell list" where
  "nxdomain_row rdtype =
     [Txt rdtype, Txt [], Txt ''Error: The DNS query name does not exist: nosuch.example.'']"


text \<open>The command line \<^verbatim>\<open>--fqdn f --nameserver n --bgp b\<close>, any part of it left out.\<close>

definition example_args :: "string option \<Rightarrow> string option \<Rightarrow> string option \<Rightarrow> namespace" where
  "example_args f n b =
     \<lparr>arg_fqdn = map_option (\<lambda>x. [x]) f, arg_nameserver = map_option (\<lambda>x. [x]) n,
      arg_subnet = None, arg_target_host = None, arg_bgp = b\<rparr>"

text \<open>The answer for AS13335 with one prefix, and an API that knows only this ASN.\<close>

definition cf_prefix :: json where
  "cf_prefix = JObj [(''name'', JStr ''CF-1''), (''prefix'', JStr ''1.1.1.0/24''), (''cidr'', JInt 24)]"

definition cf_body :: json where
  "cf_body = JObj [(''data'', JObj [(''ipv4_prefixes'', JList [cf_prefix])])]"

definition asn_service :: "string \<Rightarrow> http_result" where
  "asn_service u =
     (if u = ''https://api.bgpview.io/asn/13335/prefixes'' then Response 200 (Inr cf_body)
      else if u = ''https://api.bgpview.io/asn/64512/prefixes''
        then Response 200 (Inr (JObj [(''data'', JObj [])]))
      else Response 404 (Inl ''Expecting value''))"

text \<open>The answer for the prefix 8.8.8.0/24: two owning ASNs, the first with two upstreams,
  the second with none.\<close>

definition upstream_a :: json where
  "upstream_a = JObj [(''asn'', JInt 3356), (''name'', JStr ''LEVEL3'')]"

definition upstream_b :: json where
  "upstream_b = JObj [(''asn'', JInt 1299), (''name'', JStr ''TWELVE99'')]"

definition owner_a :: json where
  "owner_a = JObj [(''asn'', JInt 15169), (''name'', JStr ''GOOGLE''),
     (''description'', JStr ''Google LLC''), (''country_code'', JStr ''US''),
     (''prefix_upstreams'', JList [upstream_a, upstream_b])]"

definition owner_b :: json where
  "owner_b = JObj [(''asn'', JInt 64512), (''name'', JStr ''LAB''),
     (''description'', JNull), (''country_code'', JStr ''ZZ''),
     (''prefix_upstreams'', JList [])]"

definition google_info :: "json \<Rightarrow> json" where
  "google_info description_short =
     JObj [(''name'', JStr ''GOOGLE''), (''prefix'', JStr ''8.8.8.0/24''), (''ip'', JStr ''8.8.8.0''),
           (''description_short'', description_short), (''asns'', JList [owner_a, owner_b])]"

definition prefix_service :: "json \<Rightarrow> string \<Rightarrow> http_result" where
  "prefix_service info u = Response 200 (Inr (JObj [(''data'', info)]))"

text \<open>The same answer without the key \<^verbatim>\<open>description_short\<close>.\<close>

definition undescribed_info :: json where
  "undescribed_info =
     JObj [(''name'', JStr ''GOOGLE''), (''prefix'', JStr ''8.8.8.0/24''), (''ip'', JStr ''8.8.8.0''),
           (''asns'', JList [owner_a, owner_b])]"

section \<open>Properties of the dispatcher\<close>

lemma collect_records_queries:
  "fst (collect_records w ns f ts) = map (DnsQuery ns f) ts"
  by (induction ts) simp_all

lemma dns_table_no_http: "filter is_http_get (dns_table w ns f shown) = []"
  by (simp add: dns_table_def collect_records_queries filter_empty_conv)

lemma fqdn_no_http: "filter is_http_get (fst (fqdn w f nameserver)) = []"
  by (simp add: fqdn_def dns_table_no_http dns_header_def error_line_def
      split: option.splits sum.splits)

text \<open>
  Claim C10. An invocation that gives neither \<^verbatim>\<open>--fqdn\<close> nor \<^verbatim>\<open>--bgp\<close> but at least one of
  \<^verbatim>\<open>--nameserver\<close>, \<^verbatim>\<open>--subnet\<close> and \<^verbatim>\<open>--target-host\<close> produces no event at all: nothing
  is printed, no table is shown, no network call is made, and \<^verbatim>\<open>main\<close> returns.
\<close>

theorem main_inert_flags:
  "arg_fqdn args = None \<Longrightarrow> arg_bgp args = None \<Longrightarrow>
   arg_nameserver args \<noteq> None \<or> arg_subnet args \<noteq> None \<or> arg_target_host args \<noteq> None \<Longrightarrow>
   main w args = ([], None)"
  by (auto simp: main_def)

theorem main_inert_flags_witness:
  "main (sample_world (only_network ''8.8.8.0/24'') unreachable [''192.0.2.53''])
     \<lparr>arg_fqdn = None, arg_nameserver = Some [''1.1.1.1''], arg_subnet = None,
      arg_target_host = None, arg_bgp = None\<rparr> = ([], None)"
  using main_inert_flags [of "\<lparr>arg_fqdn = None, arg_nameserver = Some [''1.1.1.1''],
      arg_subnet = None, arg_target_host = None, arg_bgp = None\<rparr>"
      "sample_world (only_network ''8.8.8.0/24'') unreachable [''192.0.2.53'']"]
  by simp

text \<open>
  Claim C9, as the code has it. With \<^verbatim>\<open>--fqdn\<close> given, \<^verbatim>\<open>main\<close> is the DNS lookup of that
  name, with the nameserver of \<^verbatim>\<open>--nameserver\<close> when that is given too, and no HTTP request
  is sent, whatever \<^verbatim>\<open>--bgp\<close> holds. Without \<^verbatim>\<open>--fqdn\<close> and with a token for \<^verbatim>\<open>--bgp\<close> that
  is not the empty string, \<^verbatim>\<open>main\<close> is the routing lookup of the token. With no flag at
  all, the one notice is printed and no network call is made.
\<close>

theorem main_dispatch:
  "(arg_fqdn args = Some (f # fs) \<and> arg_nameserver args = Some (n # ns)
      \<longrightarrow> main w args = fqdn w f (Some n) \<and> filter is_http_get (fst (main w args)) = [])
   \<and> (arg_fqdn args = Some (f # fs) \<and> arg_nameserver args = None
      \<longrightarrow> main w args = fqdn w f None \<and> filter is_http_get (fst (main w args)) = [])
   \<and> (arg_fqdn args = None \<and> arg_bgp args = Some tok \<and> tok \<noteq> []
      \<longrightarrow> main w args = bgp w tok)
   \<and> (arg_fqdn args = None \<and> arg_nameserver args = None \<and> arg_subnet args = None
       \<and> arg_target_host args = None \<and> arg_bgp args = None
      \<longrightarrow> main w args = ([Print ''No arguments provided. Use --help for more information.''], None)
          \<and> network_calls (fst (main w args)) = [])"
proof -
  have a: "arg_fqdn args = Some (f # fs) \<Longrightarrow> arg_nameserver args = Some (n # ns)
      \<Longrightarrow> main w args = fqdn w f (Some n)"
    by (simp add: main_def and_then_def)
  have b: "arg_fqdn args = Some (f # fs) \<Longrightarrow> arg_nameserver args = None
      \<Longrightarrow> main w args = fqdn w f None"
    by (simp add: main_def)
  have c: "arg_fqdn args = None \<Longrightarrow> arg_bgp args = Some tok \<Longrightarrow> tok \<noteq> []
      \<Longrightarrow> main w args = bgp w tok"
    by (cases tok) (simp_all add: main_def)
  have d: "arg_fqdn args = None \<and> arg_nameserver args = None \<and> arg_subnet args = None
       \<and> arg_target_host args = None \<and> arg_bgp args = None
      \<Longrightarrow> main w args = ([Print ''No arguments provided. Use --help for more information.''], None)"
    by (simp add: main_def no_arguments_line_def)
  show ?thesis
    using a b c d by (simp add: fqdn_no_http network_calls_def)
qed

theorem main_dispatch_witness:
  "main (sample_world (only_network ''8.8.8.0/24'') unreachable [''192.0.2.53''])
        (example_args (Some ''example.com'') (Some ''1.1.1.1'') (Some ''15169''))
     = fqdn (sample_world (only_network ''8.8.8.0/24'') unreachable [''192.0.2.53''])
         ''example.com'' (Some ''1.1.1.1'')
   \<and> main (sample_world (only_network ''8.8.8.0/24'') unreachable [''192.0.2.53''])
        (example_args (Some ''example.com'') None (Some ''15169''))
     = fqdn (sample_world (only_network ''8.8.8.0/24'') unreachable [''192.0.2.53''])
         ''example.com'' None
   \<and> main (sample_world (only_network ''8.8.8.0/24'') unreachable [''192.0.2.53''])
        (example_args None None (Some ''15169''))
     = bgp (sample_world (only_network ''8.8.8.0/24'') unreachable [''192.0.2.53'']) ''15169''
   \<and> main (sample_world (only_network ''8.8.8.0/24'') unreachable [''192.0.2.53''])
        (example_args None None None)
     = ([Print ''No arguments provided. Use --help for more information.''], None)"
  using
    main_dispatch [of "example_args (Some ''example.com'') (Some ''1.1.1.1'') (Some ''15169'')"
      "''example.com''" "[]" "''1.1.1.1''" "[]" _ "[]"]
    main_dispatch [of "example_args (Some ''example.com'') None (Some ''15169'')"
      "''example.com''" "[]" "[]" "[]" _ "[]"]
    main_dispatch [of "example_args None None (Some ''15169'')"
      "[]" "[]" "[]" "[]" _ "''15169''"]
    main_dispatch [of "example_args None None None"
      "[]" "[]" "[]" "[]" _ "[]"]
  by (simp add: example_args_def)

text \<open>
  Claim C9 as written fails on \<^verbatim>\<open>--bgp ""\<close>: a routing token is supplied (the argument is
  not \<^verbatim>\<open>None\<close>, so the notice is not printed), yet the routing lookup does not run and
  nothing is printed; the routing lookup of the empty token would have printed a line.
\<close>

theorem main_empty_token_counterexample:
  "arg_bgp (example_args None None (Some [])) \<noteq> None
   \<and> main (sample_world (only_network ''8.8.8.0/24'') unreachable [''192.0.2.53''])
        (example_args None None (Some [])) = ([], None)
   \<and> bgp (sample_world (only_network ''8.8.8.0/24'') unreachable [''192.0.2.53'']) []
       = ([Print ''Error: Unable to retrieve BGP information for ASN None.''], None)"
  by (simp add: main_def example_args_def bgp_def isdigit_def get_ip_or_none_def
      sample_world_def only_network_def unable_line_def)

section \<open>Properties of the DNS lookup\<close>

lemma record_rows_reported:
  "dns_resolve w ns f rdtype = Inl msg \<Longrightarrow> \<not> py_in ''NXDOMAIN'' msg \<Longrightarrow> \<not> py_in ''NODATA'' msg \<Longrightarrow>
   record_rows w ns f rdtype = [[Txt rdtype, Txt [], Txt (''Error: '' @ msg)]]"
  by (simp add: record_rows_def)

lemma collect_records_reported:
  assumes "\<And>rdtype. dns_resolve w ns f rdtype = Inl msg"
    and "\<not> py_in ''NXDOMAIN'' msg" and "\<not> py_in ''NODATA'' msg"
  shows "snd (collect_records w ns f ts) = map (\<lambda>t. [Txt t, Txt [], Txt (''Error: '' @ msg)]) ts"
  by (induction ts) (simp_all add: record_rows_reported [OF assms])

lemma nxdomain_text_sample:
  "nxdomain_text ''nosuch.example'' = ''The DNS query name does not exist: nosuch.example.''"
  by (simp add: nxdomain_text_def)

lemma nxdomain_text_unmarked:
  "\<not> py_in ''NXDOMAIN'' ''The DNS query name does not exist: nosuch.example.''"
  "\<not> py_in ''NODATA'' ''The DNS query name does not exist: nosuch.example.''"
  by simp_all

lemma nxdomain_rows:
  "snd (collect_records nxdomain_world ns ''nosuch.example'' ts) = map nxdomain_row ts"
proof -
  have "\<And>rdtype. dns_resolve nxdomain_world ns ''nosuch.example'' rdtype =
      Inl ''The DNS query name does not exist: nosuch.example.''"
    by (simp add: nxdomain_world_def nxdomain_dns_def nxdomain_text_sample)
  from collect_records_reported [OF this nxdomain_text_unmarked]
  show ?thesis
    by (simp add: nxdomain_row_def)
qed

lemma length_rdtypes: "length rdtypes = 16"
  by (simp add: rdtypes_def)

text \<open>
  Claim C3. The domain \<^verbatim>\<open>nosuch.example\<close> does not exist, and the resolver says so for each
  of the 16 record types. The text of that failure contains neither \<^verbatim>\<open>NXDOMAIN\<close> nor
  \<^verbatim>\<open>NODATA\<close>, the two markers that \<^verbatim>\<open>fqdn\<close> looks for, so the lookup takes it for any other
  failure: all 16 types are queried in order, and the table that is shown has one error
  row for each of them, 16 rows, where none is expected.
\<close>

theorem fqdn_nxdomain_rows:
  "fqdn nxdomain_world ''nosuch.example'' (Some ''1.1.1.1'') =
     (ConsolePrint ''[bold]FQDN:[/bold] nosuch.example, [bold]Nameserver:[/bold] 1.1.1.1''
      # map (DnsQuery [''1.1.1.1''] ''nosuch.example'') rdtypes
      @ [ConsoleTable
           \<lparr>title = ''DNS Records for nosuch.example using nameserver: 1.1.1.1'',
            columns = dns_columns, rows = map nxdomain_row rdtypes\<rparr>], None)
   \<and> length (map nxdomain_row rdtypes) = 16
   \<and> nxdomain_row ''A'' =
       [Txt ''A'', Txt [], Txt ''Error: The DNS query name does not exist: nosuch.example.'']"
proof -
  have "accept_nameservers nxdomain_world [''1.1.1.1''] = None"
    by (simp add: nxdomain_world_def)
  then show ?thesis
    by (simp add: fqdn_def dns_table_def dns_header_def collect_records_queries nxdomain_rows
        length_rdtypes nxdomain_row_def)
qed

text \<open>
  Claim C5. On a system whose resolver lists no nameserver, a lookup without
  \<^verbatim>\<open>--nameserver\<close> prints the header with the placeholder \<^verbatim>\<open>unknown\<close>, then fails on
  \<^verbatim>\<open>system_nameservers[0]\<close> in the title of the table: the handler prints the error and the
  function returns. No record type is queried and no table is shown.
\<close>

theorem fqdn_without_system_nameservers:
  "fqdn (sample_world (only_network ''8.8.8.0/24'') unreachable []) ''example.com'' None =
     ([ConsolePrint ''[bold]FQDN:[/bold] example.com, [bold]Nameserver:[/bold] unknown'',
       ConsolePrint ''[bold red]Error:[/bold red] list index out of range''], None)"
  by (simp add: fqdn_def sample_world_def dns_header_def error_line_def)

section \<open>Properties of the routing-data lookup\<close>

text \<open>
  Claim C2. The API answers the lookup of 8.8.8.0/24 with status 200 and the body
  \<^verbatim>\<open>{"data": {}}\<close>. The request is sent, \<^verbatim>\<open>prefix_info['name']\<close> raises \<^verbatim>\<open>KeyError\<close>, neither
  handler of \<^verbatim>\<open>bgp\<close> catches it, and it leaves \<^verbatim>\<open>bgp\<close> with nothing printed.
\<close>

theorem bgp_empty_data_raises:
  "bgp (sample_world (only_network ''8.8.8.0/24'') empty_data [''192.0.2.53'']) ''8.8.8.0/24'' =
     ([HttpGet ''https://api.bgpview.io/prefix/8.8.8.0/24''], Some (KeyError ''name''))"
  by (simp add: bgp_def sample_world_def only_network_def empty_data_def isdigit_def
      is_digit_char_def is_decimal_def get_ip_or_none_def prefix_lookup_def prefix_url_def
      BGPVIEW_def prefix_tables_def and_then_def prefix_summary_row_def)

text \<open>
  Claim C1. The token \<^verbatim>\<open>not-a-token!\<close> is neither a digit string nor a network. No network
  call is made, but what \<^verbatim>\<open>bgp\<close> prints is the line of its last \<^verbatim>\<open>else\<close>, about an ASN
  \<^verbatim>\<open>None\<close>, and no line of the generic validation error: \<^verbatim>\<open>get_ip_or_none\<close> has turned the
  \<^verbatim>\<open>ValueError\<close> of the parse into \<^verbatim>\<open>None\<close>, so the handler that prints the validation
  error is never reached for a malformed address.
\<close>

theorem bgp_malformed_token_message:
  "\<not> isdigit ''not-a-token!''
   \<and> ip_network (sample_world (only_network ''8.8.8.0/24'') unreachable []) ''not-a-token!'' = None
   \<and> bgp (sample_world (only_network ''8.8.8.0/24'') unreachable []) ''not-a-token!'' =
       ([Print ''Error: Unable to retrieve BGP information for ASN None.''], None)
   \<and> fst (bgp (sample_world (only_network ''8.8.8.0/24'') unreachable []) ''not-a-token!'')
       \<noteq> invalid_value_lines ''not-a-token!''
   \<and> set (fst (bgp (sample_world (only_network ''8.8.8.0/24'') unreachable []) ''not-a-token!''))
       \<inter> set (invalid_value_lines ''not-a-token!'') = {}"
  by (simp add: bgp_def get_ip_or_none_def unable_line_def sample_world_def only_network_def
      invalid_value_lines_def isdigit_def is_digit_char_def is_decimal_def)

section \<open>Rows built from a well-formed answer\<close>

lemma subscript_field: "has_key v k \<Longrightarrow> subscript v k = Inr (field v k)"
  by (cases v) auto

lemma renderable_text_cell: "is_text x \<Longrightarrow> renderable x = Inr (text_cell x)"
  by (cases x) auto

lemma subscript_text:
  "has_text v k \<Longrightarrow> subscript v k = Inr (field v k) \<and> renderable (field v k) = Inr (text_cell (field v k))"
  by (simp add: has_text_def subscript_field renderable_text_cell)

lemma and_then_Inr [simp]: "and_then (Inr x) f = f x"
  by (simp add: and_then_def)

lemma and_then_Inl [simp]: "and_then (Inl e) f = Inl e"
  by (simp add: and_then_def)

lemma asn_prefix_row_entry: "prefix_entry p \<Longrightarrow> asn_prefix_row p = Inr (AsnPrefixRow p)"
  by (simp add: prefix_entry_def asn_prefix_row_def AsnPrefixRow_def subscript_text subscript_field)

lemma asn_prefix_rows_entries:
  "list_all prefix_entry ps \<Longrightarrow> asn_prefix_rows ps = Inr (map AsnPrefixRow ps)"
  by (induction ps) (simp_all add: asn_prefix_row_entry)

lemma asn_detail_row_entry:
  "owner_entry a \<Longrightarrow> upstream_entry u \<Longrightarrow> asn_detail_row a u = Inr (AsnDetailRow a u)"
  by (simp add: owner_entry_def upstream_entry_def asn_detail_row_def AsnDetailRow_def
      subscript_text subscript_field)

lemma upstream_rows_entries:
  "owner_entry a \<Longrightarrow> list_all upstream_entry us \<Longrightarrow>
   upstream_rows a us = Inr (map (AsnDetailRow a) us)"
  by (induction us) (simp_all add: asn_detail_row_entry)

lemma py_iter_list: "is_list x \<Longrightarrow> py_iter x = Inr (elements x)"
  by (cases x) auto

lemma py_len_list: "is_list x \<Longrightarrow> py_len x = Inr (length (elements x))"
  by (cases x) auto

lemma owner_upstreams:
  "owner_entry a \<Longrightarrow> subscript a ''prefix_upstreams'' = Inr (field a ''prefix_upstreams'')
     \<and> py_iter (field a ''prefix_upstreams'') = Inr (upstreams_of a)
     \<and> list_all upstream_entry (upstreams_of a)"
  by (simp add: owner_entry_def has_list_def subscript_field py_iter_list upstreams_of_def)

lemma asn_rows_entries:
  "list_all owner_entry owners \<Longrightarrow>
   asn_rows owners = Inr (concat (map (\<lambda>a. map (AsnDetailRow a) (upstreams_of a)) owners))"
  by (induction owners) (simp_all add: owner_upstreams upstream_rows_entries)

lemma bgp_asn_path:
  "isdigit tok \<Longrightarrow> py_int tok = Some asn \<Longrightarrow>
   bgp w tok = except_ValueError tok
     (after [ConsolePrint (''[bold]BGP ASN:[/bold] '' @ str_int asn)]
        (except_RequestException (asn_lookup w asn)))"
  by (simp add: bgp_def)

lemma bgp_prefix_path:
  "\<not> isdigit tok \<Longrightarrow> ip_network w tok = Some prefix \<Longrightarrow>
   bgp w tok = except_ValueError tok (except_RequestException (prefix_lookup w prefix))"
  by (simp add: bgp_def get_ip_or_none_def)

lemma dict_get_data:
  "is_dict data \<Longrightarrow> dict_get data k d = Inr (if has_key data k then field data k else d)"
  by (cases data) auto

text \<open>
  Claim C6. The token is a digit string that converts to the number \<open>asn\<close>. When the API
  answers with status 200 and a body whose \<^verbatim>\<open>data.ipv4_prefixes\<close> is a list of entries
  \<^verbatim>\<open>{name, prefix, cidr}\<close>, the lookup prints the header, sends the one request and shows
  one table whose rows are the rows of the entries, one for each entry, in the order of the
  list, each with the name, the prefix and the CIDR length of its entry and the success
  mark. When \<^verbatim>\<open>ipv4_prefixes\<close> is absent or is the empty list, the table has no row and
  nothing is raised. When the status is not 200, no table is shown and nothing is raised.
\<close>

theorem bgp_asn_rows:
  assumes "isdigit tok" and "py_int tok = Some asn"
  shows "(http_get w (asn_url asn) = Response 200 (Inr data)
          \<and> dict_get data ''data'' (JObj []) = Inr asn_info
          \<and> dict_get asn_info ''ipv4_prefixes'' (JList []) = Inr (JList prefixes)
          \<and> list_all prefix_entry prefixes
        \<longrightarrow> bgp w tok =
            ([ConsolePrint (''[bold]BGP ASN:[/bold] '' @ str_int asn), HttpGet (asn_url asn),
              ConsoleTable \<lparr>title = ''ASN '' @ str_int asn @ '' Information'',
                            columns = asn_columns, rows = map AsnPrefixRow prefixes\<rparr>], None))
     \<and> (http_get w (asn_url asn) = Response 200 (Inr data)
          \<and> dict_get data ''data'' (JObj []) = Inr asn_info \<and> is_dict asn_info
          \<and> (\<not> has_key asn_info ''ipv4_prefixes'' \<or> field asn_info ''ipv4_prefixes'' = JList [])
        \<longrightarrow> bgp w tok =
            ([ConsolePrint (''[bold]BGP ASN:[/bold] '' @ str_int asn), HttpGet (asn_url asn),
              ConsoleTable \<lparr>title = ''ASN '' @ str_int asn @ '' Information'',
                            columns = asn_columns, rows = []\<rparr>], None))
     \<and> (http_get w (asn_url asn) = Response status_code body \<and> status_code \<noteq> 200
        \<longrightarrow> bgp w tok =
            ([ConsolePrint (''[bold]BGP ASN:[/bold] '' @ str_int asn), HttpGet (asn_url asn)],
             None))"
proof -
  note path = bgp_asn_path [OF assms, of w]
  have a: "bgp w tok =
            ([ConsolePrint (''[bold]BGP ASN:[/bold] '' @ str_int asn), HttpGet (asn_url asn),
              ConsoleTable \<lparr>title = ''ASN '' @ str_int asn @ '' Information'',
                            columns = asn_columns, rows = map AsnPrefixRow ps\<rparr>], None)"
    if "http_get w (asn_url asn) = Response 200 (Inr data)"
      and "dict_get data ''data'' (JObj []) = Inr asn_info"
      and "dict_get asn_info ''ipv4_prefixes'' (JList []) = Inr (JList ps)"
      and "list_all prefix_entry ps" for ps
  proof -
    have "asn_table asn data = Inr \<lparr>title = ''ASN '' @ str_int asn @ '' Information'',
                            columns = asn_columns, rows = map AsnPrefixRow ps\<rparr>"
      using that by (simp add: asn_table_def asn_prefix_rows_entries)
    then show ?thesis
      using that(1) by (simp add: path asn_lookup_def after_def)
  qed
  have b: "bgp w tok =
            ([ConsolePrint (''[bold]BGP ASN:[/bold] '' @ str_int asn), HttpGet (asn_url asn),
              ConsoleTable \<lparr>title = ''ASN '' @ str_int asn @ '' Information'',
                            columns = asn_columns, rows = []\<rparr>], None)"
    if "http_get w (asn_url asn) = Response 200 (Inr data)"
      and "dict_get data ''data'' (JObj []) = Inr asn_info" and "is_dict asn_info"
      and "\<not> has_key asn_info ''ipv4_prefixes'' \<or> field asn_info ''ipv4_prefixes'' = JList []"
  proof -
    have "dict_get asn_info ''ipv4_prefixes'' (JList []) = Inr (JList [])"
      using that(3,4) by (auto simp: dict_get_data)
    from a [OF that(1,2) this] show ?thesis by simp
  qed
  have c: "bgp w tok =
            ([ConsolePrint (''[bold]BGP ASN:[/bold] '' @ str_int asn), HttpGet (asn_url asn)],
             None)"
    if "http_get w (asn_url asn) = Response status_code body" and "status_code \<noteq> 200"
    using that by (simp add: path asn_lookup_def after_def)
  show ?thesis
    using a b c by blast
qed

lemma str_int_samples:
  "str_int 13335 = ''13335''" "str_int 64512 = ''64512''" "str_int 64513 = ''64513''"
  "str_int 24 = ''24''" "str_int 15169 = ''15169''" "str_int 3356 = ''3356''"
  "str_int 1299 = ''1299''"
  by (simp_all add: str_int_def str_nat.simps digit_char_def)

lemma str_nat_samples: "str_nat 2 = ''2''"
  by (simp add: str_nat.simps digit_char_def)

lemma isdigit_samples:
  "isdigit ''13335''" "isdigit ''64512''" "isdigit ''64513''" "isdigit ''15169''"
  by (simp_all add: isdigit_def is_digit_char_def is_decimal_def)

lemma py_int_samples:
  "py_int ''13335'' = Some 13335" "py_int ''64512'' = Some 64512"
  "py_int ''64513'' = Some 64513" "py_int ''15169'' = Some 15169"
  by (simp_all add: py_int_def is_decimal_def digit_val_def int_max_str_digits_def)

lemma asn_url_samples:
  "asn_url 13335 = ''https://api.bgpview.io/asn/13335/prefixes''"
  "asn_url 64512 = ''https://api.bgpview.io/asn/64512/prefixes''"
  "asn_url 64513 = ''https://api.bgpview.io/asn/64513/prefixes''"
  by (simp_all add: asn_url_def BGPVIEW_def str_int_samples)

lemma sample_world_sel:
  "ip_network (sample_world parse get ns) = parse"
  "http_get (sample_world parse get ns) = get"
  "system_resolver (sample_world parse get ns) = Inr ns"
  by (simp_all add: sample_world_def)

lemma asn_service_samples:
  "asn_service ''https://api.bgpview.io/asn/13335/prefixes'' = Response 200 (Inr cf_body)"
  "asn_service ''https://api.bgpview.io/asn/64512/prefixes'' =
     Response 200 (Inr (JObj [(''data'', JObj [])]))"
  "asn_service ''https://api.bgpview.io/asn/64513/prefixes'' = Response 404 (Inl ''Expecting value'')"
  by (simp_all add: asn_service_def)

lemma cf_prefix_row:
  "prefix_entry cf_prefix"
  "AsnPrefixRow cf_prefix = [Txt ''CF-1'', Txt ''1.1.1.0/24'', Txt ''24'', Txt tick]"
  by (simp_all add: prefix_entry_def has_text_def cf_prefix_def AsnPrefixRow_def str_int_samples)

theorem bgp_asn_rows_witness:
  "bgp (sample_world (only_network ''8.8.8.0/24'') asn_service [''192.0.2.53'']) ''13335'' =
     ([ConsolePrint ''[bold]BGP ASN:[/bold] 13335'',
       HttpGet ''https://api.bgpview.io/asn/13335/prefixes'',
       ConsoleTable \<lparr>title = ''ASN 13335 Information'', columns = asn_columns,
                     rows = [[Txt ''CF-1'', Txt ''1.1.1.0/24'', Txt ''24'', Txt tick]]\<rparr>], None)
   \<and> bgp (sample_world (only_network ''8.8.8.0/24'') asn_service [''192.0.2.53'']) ''64512'' =
     ([ConsolePrint ''[bold]BGP ASN:[/bold] 64512'',
       HttpGet ''https://api.bgpview.io/asn/64512/prefixes'',
       ConsoleTable \<lparr>title = ''ASN 64512 Information'', columns = asn_columns,
                     rows = []\<rparr>], None)
   \<and> bgp (sample_world (only_network ''8.8.8.0/24'') asn_service [''192.0.2.53'']) ''64513'' =
     ([ConsolePrint ''[bold]BGP ASN:[/bold] 64513'',
       HttpGet ''https://api.bgpview.io/asn/64513/prefixes''], None)"
proof -
  let ?w = "sample_world (only_network ''8.8.8.0/24'') asn_service [''192.0.2.53'']"
  have h1: "http_get ?w (asn_url 13335) = Response 200 (Inr cf_body)
      \<and> dict_get cf_body ''data'' (JObj []) = Inr (JObj [(''ipv4_prefixes'', JList [cf_prefix])])
      \<and> dict_get (JObj [(''ipv4_prefixes'', JList [cf_prefix])]) ''ipv4_prefixes'' (JList [])
          = Inr (JList [cf_prefix])
      \<and> list_all prefix_entry [cf_prefix]"
    by (simp add: sample_world_sel asn_url_samples asn_service_samples cf_body_def cf_prefix_row)
  have h2: "http_get ?w (asn_url 64512) = Response 200 (Inr (JObj [(''data'', JObj [])]))
      \<and> dict_get (JObj [(''data'', JObj [])]) ''data'' (JObj []) = Inr (JObj [])
      \<and> is_dict (JObj [])
      \<and> (\<not> has_key (JObj []) ''ipv4_prefixes'' \<or> field (JObj []) ''ipv4_prefixes'' = JList [])"
    by (simp add: sample_world_sel asn_url_samples asn_service_samples)
  have h3: "http_get ?w (asn_url 64513) = Response 404 (Inl ''Expecting value'')
      \<and> (404::int) \<noteq> 200"
    by (simp add: sample_world_sel asn_url_samples asn_service_samples)
  have t1: "bgp ?w ''13335'' =
     ([ConsolePrint ''[bold]BGP ASN:[/bold] 13335'',
       HttpGet ''https://api.bgpview.io/asn/13335/prefixes'',
       ConsoleTable \<lparr>title = ''ASN 13335 Information'', columns = asn_columns,
                     rows = [[Txt ''CF-1'', Txt ''1.1.1.0/24'', Txt ''24'', Txt tick]]\<rparr>], None)"
    using bgp_asn_rows [OF isdigit_samples(1) py_int_samples(1), THEN conjunct1, THEN mp, OF h1]
    by (simp add: asn_url_samples str_int_samples cf_prefix_row)
  have t2: "bgp ?w ''64512'' =
     ([ConsolePrint ''[bold]BGP ASN:[/bold] 64512'',
       HttpGet ''https://api.bgpview.io/asn/64512/prefixes'',
       ConsoleTable \<lparr>title = ''ASN 64512 Information'', columns = asn_columns,
                     rows = []\<rparr>], None)"
    using bgp_asn_rows [OF isdigit_samples(2) py_int_samples(2), THEN conjunct2, THEN conjunct1,
        THEN mp, OF h2]
    by (simp add: asn_url_samples str_int_samples)
  have t3: "bgp ?w ''64513'' =
     ([ConsolePrint ''[bold]BGP ASN:[/bold] 64513'',
       HttpGet ''https://api.bgpview.io/asn/64513/prefixes''], None)"
    using bgp_asn_rows [OF isdigit_samples(3) py_int_samples(3), THEN conjunct2, THEN conjunct2,
        THEN mp, OF h3]
    by (simp add: asn_url_samples str_int_samples)
  show ?thesis
    using t1 t2 t3 by simp
qed

lemma subscript_list:
  "has_list v k \<Longrightarrow> subscript v k = Inr (field v k) \<and> py_len (field v k) = Inr (length (elements (field v k)))
     \<and> py_iter (field v k) = Inr (elements (field v k))"
  by (simp add: has_list_def subscript_field py_len_list py_iter_list)

lemma has_key_dict_get:
  "has_key v k \<Longrightarrow> dict_get v k' d = Inr (if has_key v k' then field v k' else d)"
  by (cases v) auto

lemma prefix_summary_row_fields:
  assumes "has_text info ''name''" and "has_text info ''prefix''" and "has_text info ''ip''"
    and "has_key info ''description_short''" and "has_list info ''asns''"
  shows "prefix_summary_row info =
     and_then (if truthy (field info ''description_short'')
               then renderable (field info ''description_short'') else Inr (Txt ''UNKNOWN''))
       (\<lambda>c4. Inr [text_cell (field info ''name''), text_cell (field info ''prefix''),
                  text_cell (field info ''ip''), c4,
                  Txt (str_nat (length (elements (field info ''asns'')))), Txt tick])"
  using assms
  by (simp add: prefix_summary_row_def subscript_text subscript_field subscript_list)

lemma google_info_fields:
  "has_text (google_info d) ''name''" "has_text (google_info d) ''prefix''"
  "has_text (google_info d) ''ip''" "has_key (google_info d) ''description_short''"
  "has_list (google_info d) ''asns''"
  "field (google_info d) ''description_short'' = d"
  "field (google_info d) ''name'' = JStr ''GOOGLE''"
  "field (google_info d) ''prefix'' = JStr ''8.8.8.0/24''"
  "field (google_info d) ''ip'' = JStr ''8.8.8.0''"
  "field (google_info d) ''asns'' = JList [owner_a, owner_b]"
  by (simp_all add: google_info_def has_text_def has_list_def)

lemma str_nat_Suc_Suc_0: "str_nat (Suc (Suc 0)) = [CHR 0x32]"
  by (simp add: str_nat.simps digit_char_def)

text \<open>
  Claim C4. The API answers the lookup of 8.8.8.0/24 with status 200 and a prefix object
  that has \<^verbatim>\<open>name\<close>, \<^verbatim>\<open>prefix\<close>, \<^verbatim>\<open>ip\<close> and \<^verbatim>\<open>asns\<close> but no key \<^verbatim>\<open>description_short\<close>. No row
  with the description \<^verbatim>\<open>UNKNOWN\<close> is built: \<^verbatim>\<open>prefix_info['description_short']\<close> raises
  \<^verbatim>\<open>KeyError\<close>, and the exception leaves \<^verbatim>\<open>bgp\<close> after the request, with no table shown.
\<close>

theorem bgp_absent_description_raises:
  "\<not> has_key undescribed_info ''description_short''
   \<and> prefix_summary_row undescribed_info = Inl (KeyError ''description_short'')
   \<and> bgp (sample_world (only_network ''8.8.8.0/24'') (prefix_service undescribed_info)
           [''192.0.2.53'']) ''8.8.8.0/24''
       = ([HttpGet ''https://api.bgpview.io/prefix/8.8.8.0/24''],
          Some (KeyError ''description_short''))"
  by (simp add: bgp_def sample_world_def only_network_def prefix_service_def undescribed_info_def
      isdigit_def is_digit_char_def is_decimal_def get_ip_or_none_def prefix_lookup_def
      prefix_url_def BGPVIEW_def prefix_tables_def prefix_summary_row_def)

lemma prefix_tables_entries:
  assumes "dict_get data ''data'' (JObj []) = Inr info" and "prefix_info_entry info"
  shows "prefix_tables prefix data =
     Inr (\<lparr>title = ''Prefix '' @ prefix @ '' Information'', columns = prefix_columns,
           rows = [PrefixSummaryRow info]\<rparr>,
          \<lparr>title = ''ASN Information for '' @ prefix, columns = asn_detail_columns,
           rows = concat (map (\<lambda>a. map (AsnDetailRow a) (upstreams_of a))
                            (elements (field info ''asns'')))\<rparr>)"
proof -
  from assms(2) have f: "has_text info ''name''" "has_text info ''prefix''" "has_text info ''ip''"
      "has_key info ''description_short''" "has_list info ''asns''"
    and d: "truthy (field info ''description_short'') \<Longrightarrow> is_text (field info ''description_short'')"
    and o: "list_all owner_entry (elements (field info ''asns''))"
    by (simp_all add: prefix_info_entry_def split: if_splits)
  have s: "prefix_summary_row info = Inr (PrefixSummaryRow info)"
    using d by (simp add: prefix_summary_row_fields [OF f] PrefixSummaryRow_def renderable_text_cell)
  show ?thesis
    using assms(1) f(4,5) o
    by (simp add: prefix_tables_def has_key_dict_get s subscript_list asn_rows_entries)
qed

lemma length_concat_map:
  "length (concat (map (\<lambda>a. map (g a) (h a)) xs)) = sum_list (map (\<lambda>a. length (h a)) xs)"
  by (induction xs) simp_all

text \<open>
  Claim C7. The token parses as the network \<open>prefix\<close>, the API answers with status 200, and
  \<^verbatim>\<open>data\<close> is a prefix object as the API documents it. Then the lookup sends the one
  request and shows two tables. The rows of the second are the rows of the pairs (owning
  ASN, upstream ASN), the owning ASNs in the order of \<^verbatim>\<open>asns\<close> and, for each, its upstreams
  in the order of \<^verbatim>\<open>prefix_upstreams\<close>: an ASN with no upstream gives no row, and the number
  of rows is the sum of the numbers of upstreams. The fifth field of the one row of the
  first table is the number of owning ASNs, those without upstreams included.
\<close>

theorem bgp_prefix_detail_rows:
  assumes "\<not> isdigit tok" and "ip_network w tok = Some prefix"
    and "http_get w (prefix_url prefix) = Response 200 (Inr data)"
    and "dict_get data ''data'' (JObj []) = Inr info"
    and "prefix_info_entry info"
  shows "bgp w tok =
     ([HttpGet (prefix_url prefix),
       ConsoleTable \<lparr>title = ''Prefix '' @ prefix @ '' Information'', columns = prefix_columns,
                     rows = [PrefixSummaryRow info]\<rparr>,
       ConsoleTable \<lparr>title = ''ASN Information for '' @ prefix, columns = asn_detail_columns,
                     rows = concat (map (\<lambda>a. map (AsnDetailRow a) (upstreams_of a))
                                      (elements (field info ''asns'')))\<rparr>], None)
     \<and> PrefixSummaryRow info ! 4 = Txt (str_nat (length (elements (field info ''asns''))))
     \<and> length (concat (map (\<lambda>a. map (AsnDetailRow a) (upstreams_of a))
                           (elements (field info ''asns''))))
         = sum_list (map (\<lambda>a. length (upstreams_of a)) (elements (field info ''asns'')))"
  using assms(3)
  by (simp add: bgp_prefix_path [OF assms(1,2)] prefix_lookup_def
      prefix_tables_entries [OF assms(4,5)] PrefixSummaryRow_def length_concat_map)

lemma owner_samples:
  "owner_entry owner_a" "owner_entry owner_b"
  "upstreams_of owner_a = [upstream_a, upstream_b]" "upstreams_of owner_b = []"
  "AsnDetailRow owner_a upstream_a =
     [Txt ''15169'', Txt ''GOOGLE'', Txt ''Google LLC'', Txt ''US'', Txt ''3356'', Txt ''LEVEL3'']"
  "AsnDetailRow owner_a upstream_b =
     [Txt ''15169'', Txt ''GOOGLE'', Txt ''Google LLC'', Txt ''US'', Txt ''1299'', Txt ''TWELVE99'']"
  by (simp_all add: owner_entry_def upstream_entry_def upstreams_of_def has_text_def has_list_def
      owner_a_def owner_b_def upstream_a_def upstream_b_def AsnDetailRow_def str_int_samples)

lemma google_info_entry: "prefix_info_entry (google_info (JStr ''Google LLC''))"
  by (simp add: prefix_info_entry_def google_info_fields owner_samples)

lemma prefix_url_sample: "prefix_url ''8.8.8.0/24'' = ''https://api.bgpview.io/prefix/8.8.8.0/24''"
  by (simp add: prefix_url_def BGPVIEW_def)

lemma not_isdigit_network: "\<not> isdigit ''8.8.8.0/24''"
  by (simp add: isdigit_def is_digit_char_def is_decimal_def)

theorem bgp_prefix_detail_rows_witness:
  "bgp (sample_world (only_network ''8.8.8.0/24'')
          (prefix_service (google_info (JStr ''Google LLC''))) [''192.0.2.53'']) ''8.8.8.0/24'' =
     ([HttpGet ''https://api.bgpview.io/prefix/8.8.8.0/24'',
       ConsoleTable \<lparr>title = ''Prefix 8.8.8.0/24 Information'', columns = prefix_columns,
         rows = [[Txt ''GOOGLE'', Txt ''8.8.8.0/24'', Txt ''8.8.8.0'', Txt ''Google LLC'',
                  Txt ''2'', Txt tick]]\<rparr>,
       ConsoleTable \<lparr>title = ''ASN Information for 8.8.8.0/24'', columns = asn_detail_columns,
         rows = [[Txt ''15169'', Txt ''GOOGLE'', Txt ''Google LLC'', Txt ''US'', Txt ''3356'',
                  Txt ''LEVEL3''],
                 [Txt ''15169'', Txt ''GOOGLE'', Txt ''Google LLC'', Txt ''US'', Txt ''1299'',
                  Txt ''TWELVE99'']]\<rparr>], None)"
proof -
  let ?info = "google_info (JStr ''Google LLC'')"
  let ?w = "sample_world (only_network ''8.8.8.0/24'') (prefix_service ?info) [''192.0.2.53'']"
  have p: "ip_network ?w ''8.8.8.0/24'' = Some ''8.8.8.0/24''"
    by (simp add: sample_world_sel only_network_def)
  have g: "http_get ?w (prefix_url ''8.8.8.0/24'') = Response 200 (Inr (JObj [(''data'', ?info)]))"
    by (simp add: sample_world_sel prefix_service_def)
  have d: "dict_get (JObj [(''data'', ?info)]) ''data'' (JObj []) = Inr ?info"
    by simp
  show ?thesis
    using bgp_prefix_detail_rows [OF not_isdigit_network p g d google_info_entry]
    by (simp add: prefix_url_sample PrefixSummaryRow_def google_info_fields owner_samples
        str_nat_Suc_Suc_0)
qed

section \<open>Classification of the routing token\<close>









































end
